theory Spec2Isabelle
  imports Main
begin

section \<open>Python text\<close>

text \<open>
  A Python \<open>str\<close> is modelled as a \<open>string\<close>, one \<open>char\<close> per code point, so the
  model covers the code points below U+0100. The classes \<open>\d\<close> and \<open>\s\<close> (and
  \<open>str.strip\<close>, \<open>str.split\<close>) are Python's on that range. For letters (\<open>\w\<close>, \<open>[A-Z]\<close>,
  \<open>str.upper\<close>, \<open>re.IGNORECASE\<close>) the ASCII letters are modelled; a code point above U+007F
  is a caseless non-word character here.
\<close>

definition ascii_lowercase :: string where
  "ascii_lowercase = ''abcdefghijklmnopqrstuvwxyz''"

definition ascii_uppercase :: string where
  "ascii_uppercase = ''ABCDEFGHIJKLMNOPQRSTUVWXYZ''"

definition digits :: string where
  "digits = ''0123456789''"

definition is_digit :: "char \<Rightarrow> bool" where
  "is_digit c = (c \<in> set digits)"

definition is_upper :: "char \<Rightarrow> bool" where
  "is_upper c = (c \<in> set ascii_uppercase)"

definition is_lower :: "char \<Rightarrow> bool" where
  "is_lower c = (c \<in> set ascii_lowercase)"

definition is_alpha :: "char \<Rightarrow> bool" where
  "is_alpha c = (is_lower c \<or> is_upper c)"

definition is_alnum :: "char \<Rightarrow> bool" where
  "is_alnum c = (is_alpha c \<or> is_digit c)"

text \<open>\<open>\s\<close>: the code points 9-13, 28-32, 0x85 and 0xA0.\<close>

definition is_space :: "char \<Rightarrow> bool" where
  "is_space c = (c \<in> set [CHR 0x09, CHR 0x0A, CHR 0x0B, CHR 0x0C, CHR 0x0D,
                            CHR 0x1C, CHR 0x1D, CHR 0x1E, CHR 0x1F, CHR 0x20,
                            CHR 0x85, CHR 0xA0])"

definition is_word :: "char \<Rightarrow> bool" where
  "is_word c = (is_alnum c \<or> c = CHR ''_'')"

definition upper_char :: "char \<Rightarrow> char" where
  "upper_char c = (case map_of (zip ascii_lowercase ascii_uppercase) c of
                     Some u \<Rightarrow> u | None \<Rightarrow> c)"

definition lower_char :: "char \<Rightarrow> char" where
  "lower_char c = (case map_of (zip ascii_uppercase ascii_lowercase) c of
                     Some l \<Rightarrow> l | None \<Rightarrow> c)"

definition upper :: "string \<Rightarrow> string" where
  "upper s = map upper_char s"

definition strip :: "string \<Rightarrow> string" where
  "strip s = rev (dropWhile is_space (rev (dropWhile is_space s)))"

definition startswith :: "string \<Rightarrow> string \<Rightarrow> bool" where
  "startswith s p = (take (length p) s = p)"

definition endswith :: "string \<Rightarrow> string \<Rightarrow> bool" where
  "endswith s p = (length p \<le> length s \<and> drop (length s - length p) s = p)"

text \<open>\<open>s.replace(' ', '')\<close>\<close>

definition remove_blanks :: "string \<Rightarrow> string" where
  "remove_blanks s = filter (\<lambda>c. c \<noteq> CHR '' '') s"

text \<open>\<open>s.split()\<close>: the maximal runs of non-whitespace; \<open>cur\<close> is the run being read, reversed.\<close>

fun split_from :: "string \<Rightarrow> string \<Rightarrow> string list" where
  "split_from cur [] = (if cur = [] then [] else [rev cur])"
| "split_from cur (c # s) =
     (if is_space c then (if cur = [] then split_from [] s else rev cur # split_from [] s)
      else split_from (c # cur) s)"

definition split :: "string \<Rightarrow> string list" where
  "split s = split_from [] s"

fun join :: "string \<Rightarrow> string list \<Rightarrow> string" where
  "join sep [] = []"
| "join sep [x] = x"
| "join sep (x # y # xs) = x @ sep @ join sep (y # xs)"

text \<open>Truthiness of a string: \<open>if s\<close>.\<close>

definition truthy :: "string \<Rightarrow> bool" where
  "truthy s = (s \<noteq> [])"

section \<open>Regular expressions\<close>

text \<open>
  The patterns of the source use classes, sequence, alternation, greedy repetition and the
  assertions \<open>\b\<close>, \<open>^\<close> and \<open>$\<close>. \<open>ms r (pv, s)\<close> lists, in the order in which Python's
  backtracking matcher tries them, the positions at which a match of \<open>r\<close> that starts at
  \<open>(pv, s)\<close> can end; a position is the character before it (if any) and the text after it.
  The first element is the match \<open>re\<close> reports. No pattern is compiled with \<open>re.MULTILINE\<close>
  and an anchor at once, so \<open>^\<close> is the start of the text and \<open>$\<close> its end or the place
  before a final newline.
\<close>

datatype re = Cls "char \<Rightarrow> bool" | Eps | Seq re re | Alt re re | Star re | WordB | Bol | Eol

type_synonym pos = "char option \<times> string"

fun ms :: "re \<Rightarrow> pos \<Rightarrow> pos list" where
  "ms (Cls p) (pv, s) = (case s of [] \<Rightarrow> [] | c # t \<Rightarrow> if p c then [(Some c, t)] else [])"
| "ms Eps z = [z]"
| "ms (Seq a b) z = concat (map (ms b) (ms a z))"
| "ms (Alt a b) z = ms a z @ ms b z"
| "ms (Star r) z =
     concat (map (\<lambda>z'. if length (snd z') < length (snd z) then ms (Star r) z' else [])
                 (ms r z)) @ [z]"
| "ms WordB (pv, s) =
     (if (case pv of None \<Rightarrow> False | Some c \<Rightarrow> is_word c)
         \<noteq> (case s of [] \<Rightarrow> False | c # t \<Rightarrow> is_word c)
      then [(pv, s)] else [])"
| "ms Bol (pv, s) = (if pv = None then [(pv, s)] else [])"
| "ms Eol (pv, s) = (if s = [] \<or> s = [CHR 0x0A] then [(pv, s)] else [])"

text \<open>Derived forms: \<open>r?\<close>, \<open>r+\<close>, \<open>r{m,n}\<close>, \<open>r{m,}\<close>, a literal character, a sequence, a choice.\<close>

definition Opt :: "re \<Rightarrow> re" where
  "Opt r = Alt r Eps"

definition Plus :: "re \<Rightarrow> re" where
  "Plus r = Seq r (Star r)"

primrec upto_rep :: "nat \<Rightarrow> re \<Rightarrow> re" where
  "upto_rep 0 r = Eps"
| "upto_rep (Suc n) r = Alt (Seq r (upto_rep n r)) Eps"

primrec exact_rep :: "nat \<Rightarrow> re \<Rightarrow> re \<Rightarrow> re" where
  "exact_rep 0 r k = k"
| "exact_rep (Suc n) r k = Seq r (exact_rep n r k)"

definition Rep :: "nat \<Rightarrow> nat \<Rightarrow> re \<Rightarrow> re" where
  "Rep m n r = exact_rep m r (upto_rep (n - m) r)"

definition RepMin :: "nat \<Rightarrow> re \<Rightarrow> re" where
  "RepMin m r = exact_rep m r (Star r)"

definition Lit :: "char \<Rightarrow> re" where
  "Lit c = Cls (\<lambda>x. x = c)"

definition OneOf :: "string \<Rightarrow> re" where
  "OneOf cs = Cls (\<lambda>x. x \<in> set cs)"

fun Seqs :: "re list \<Rightarrow> re" where
  "Seqs [] = Eps"
| "Seqs [r] = r"
| "Seqs (r # q # rs) = Seq r (Seqs (q # rs))"

fun Alts :: "re list \<Rightarrow> re" where
  "Alts [] = Eps"
| "Alts [r] = r"
| "Alts (r # q # rs) = Alt r (Alts (q # rs))"

definition Lits :: "string \<Rightarrow> re" where
  "Lits w = Seqs (map Lit w)"

text \<open>\<open>re.match(r, s)\<close> is truthy when a match starts at the beginning of \<open>s\<close>.\<close>

definition re_match :: "re \<Rightarrow> string \<Rightarrow> bool" where
  "re_match r s = (ms r (None, s) \<noteq> [])"

text \<open>
  \<open>re.finditer(r, s)\<close>, as the list of the matched texts: the leftmost match from the
  current position, then on from its end; after an empty match the scan moves one
  character on.
\<close>

function finditer_from :: "re \<Rightarrow> pos \<Rightarrow> string list" where
  "finditer_from r (pv, s) =
     (case ms r (pv, s) of
        [] \<Rightarrow> (case s of [] \<Rightarrow> [] | c # t \<Rightarrow> finditer_from r (Some c, t))
      | (pv', s') # _ \<Rightarrow>
          take (length s - length s') s #
          (if length s' < length s then finditer_from r (pv', s')
           else (case s of [] \<Rightarrow> [] | c # t \<Rightarrow> finditer_from r (Some c, t))))"
  by pat_completeness auto
termination
  by (relation "measure (\<lambda>(r, z). length (snd z))") auto

definition finditer :: "re \<Rightarrow> string \<Rightarrow> string list" where
  "finditer r s = finditer_from r (None, s)"

text \<open>\<open>re.compile(re.escape(term), re.IGNORECASE)\<close>: the term, letter case ignored.\<close>

definition escape_ignorecase :: "string \<Rightarrow> re" where
  "escape_ignorecase term = Seqs (map (\<lambda>c. Cls (\<lambda>x. lower_char x = lower_char c)) term)"

section \<open>Values, exceptions and libraries\<close>

text \<open>
  A validator can be handed any Python value. What a validator returns is the triple
  (formatted value or \<open>None\<close>, message or \<open>None\<close>, status); an exception that leaves the
  function is \<open>Inl\<close>.
\<close>

datatype pyval = PyStr string | PyNone | PyInt int

datatype pyexn = TypeError | AttributeError | KeyError | LibraryError string

type_synonym verdict = "string option \<times> string option \<times> string"

text \<open>
  The libraries the source calls are parameters of the model. \<open>HumanName\<close> is the name
  parser (with the attributes the source reads), \<open>parse\<close>, \<open>is_valid_number\<close> and
  \<open>format_number\<close> are the phone-number library, \<open>validate_email\<close> the e-mail validator,
  \<open>nlp\<close> the entity recogniser (label and text of each entity), \<open>genderize\<close> tells whether
  the name service answered with a probability above 0.6, \<open>secure_filename\<close> is the upload
  helper and \<open>today\<close> the date of \<open>datetime.now()\<close>. A library call that raises is \<open>Inl\<close>
  of the exception's text.
\<close>

record human_name =
  hn_first :: string
  hn_middle :: string
  hn_last :: string
  hn_str :: string
  hn_titles :: "string list"
  hn_suffixes :: "string list"

datatype PhoneNumberFormat = E164 | INTERNATIONAL

datatype email_result =
    ValidatedEmail (normalized: string) (email: string)
  | EmailNotValidError string
  | EmailOtherError string

type_synonym date = "nat \<times> nat \<times> nat"

record 'n libs =
  HumanName :: "string \<Rightarrow> string + human_name"
  parse :: "string \<Rightarrow> string option \<Rightarrow> string + 'n"
  is_valid_number :: "'n \<Rightarrow> bool"
  format_number :: "'n \<Rightarrow> PhoneNumberFormat \<Rightarrow> string"
  validate_email :: "string \<Rightarrow> email_result"
  nlp :: "string \<Rightarrow> (string \<times> string) list"
  genderize :: "string \<Rightarrow> bool"
  secure_filename :: "string \<Rightarrow> string"
  today :: date

section \<open>datetime.strptime and strftime\<close>

text \<open>
  \<open>strptime\<close> turns the format into a regular expression with one group per directive
  and takes the first match. Each directive is modelled by the list of the ways its
  group can match, in the order of the alternatives of its expression:
  \<open>%d\<close> is \<open>3[0-1]|[1-2]\d|0[1-9]|[1-9]| [1-9]\<close>, \<open>%m\<close> is \<open>1[0-2]|0[1-9]|[1-9]\<close>,
  \<open>%Y\<close> is \<open>\d\d\d\d\<close>, \<open>%b\<close> and \<open>%B\<close> are the month names (longest first, letter case
  ignored) and a blank of the format is \<open>\s+\<close>. A date is (year, month, day).
\<close>

datatype directive = Dir_d | Dir_m | Dir_Y | Dir_b | Dir_B | Dir_lit char | Dir_space

definition digit_val :: "char \<Rightarrow> nat" where
  "digit_val c = length (takeWhile (\<lambda>x. x \<noteq> c) digits)"

definition two_chars :: "(char \<Rightarrow> bool) \<Rightarrow> (char \<Rightarrow> bool) \<Rightarrow> string \<Rightarrow> (nat \<times> string) list" where
  "two_chars p q s =
     (case s of a # b # t \<Rightarrow>
        if p a \<and> q b then [((if is_digit a then 10 * digit_val a else 0) + digit_val b, t)] else []
      | _ \<Rightarrow> [])"

definition one_char :: "(char \<Rightarrow> bool) \<Rightarrow> string \<Rightarrow> (nat \<times> string) list" where
  "one_char p s = (case s of a # t \<Rightarrow> if p a then [(digit_val a, t)] else [] | _ \<Rightarrow> [])"

definition parse_d :: "string \<Rightarrow> (nat \<times> string) list" where
  "parse_d s =
     two_chars (\<lambda>c. c = CHR ''3'') (\<lambda>c. c \<in> set ''01'') s @
     two_chars (\<lambda>c. c \<in> set ''12'') is_digit s @
     two_chars (\<lambda>c. c = CHR ''0'') (\<lambda>c. c \<in> set ''123456789'') s @
     one_char (\<lambda>c. c \<in> set ''123456789'') s @
     two_chars (\<lambda>c. c = CHR '' '') (\<lambda>c. c \<in> set ''123456789'') s"

definition parse_m :: "string \<Rightarrow> (nat \<times> string) list" where
  "parse_m s =
     two_chars (\<lambda>c. c = CHR ''1'') (\<lambda>c. c \<in> set ''012'') s @
     two_chars (\<lambda>c. c = CHR ''0'') (\<lambda>c. c \<in> set ''123456789'') s @
     one_char (\<lambda>c. c \<in> set ''123456789'') s"

definition parse_Y :: "string \<Rightarrow> (nat \<times> string) list" where
  "parse_Y s =
     (case s of a # b # c # d # t \<Rightarrow>
        if is_digit a \<and> is_digit b \<and> is_digit c \<and> is_digit d
        then [(1000 * digit_val a + 100 * digit_val b + 10 * digit_val c + digit_val d, t)]
        else []
      | _ \<Rightarrow> [])"

definition month_abbr :: "string list" where
  "month_abbr = [''jan'', ''feb'', ''mar'', ''apr'', ''may'', ''jun'',
                 ''jul'', ''aug'', ''sep'', ''oct'', ''nov'', ''dec'']"

definition month_name :: "string list" where
  "month_name = [''january'', ''february'', ''march'', ''april'', ''may'', ''june'',
                 ''july'', ''august'', ''september'', ''october'', ''november'', ''december'']"

text \<open>The full month names in the order of the alternation: by length, longest first.\<close>

definition month_name_order :: "nat list" where
  "month_name_order = [9, 2, 11, 12, 1, 10, 8, 3, 4, 6, 7, 5]"

definition parse_name :: "string list \<Rightarrow> nat \<Rightarrow> string \<Rightarrow> (nat \<times> string) list" where
  "parse_name names k s =
     (let w = names ! (k - 1)
      in if map lower_char (take (length w) s) = w then [(k, drop (length w) s)] else [])"

definition parse_b :: "string \<Rightarrow> (nat \<times> string) list" where
  "parse_b s = concat (map (\<lambda>k. parse_name month_abbr k s) [1..<13])"

definition parse_B :: "string \<Rightarrow> (nat \<times> string) list" where
  "parse_B s = concat (map (\<lambda>k. parse_name month_name k s) month_name_order)"

definition parse_space :: "string \<Rightarrow> string list" where
  "parse_space s = map (\<lambda>k. drop k s) (rev [1..<Suc (length (takeWhile is_space s))])"

fun run_directive :: "directive \<Rightarrow> date \<times> string \<Rightarrow> (date \<times> string) list" where
  "run_directive Dir_d ((y, m, d), s) = map (\<lambda>(v, t). ((y, m, v), t)) (parse_d s)"
| "run_directive Dir_m ((y, m, d), s) = map (\<lambda>(v, t). ((y, v, d), t)) (parse_m s)"
| "run_directive Dir_Y ((y, m, d), s) = map (\<lambda>(v, t). ((v, m, d), t)) (parse_Y s)"
| "run_directive Dir_b ((y, m, d), s) = map (\<lambda>(v, t). ((y, v, d), t)) (parse_b s)"
| "run_directive Dir_B ((y, m, d), s) = map (\<lambda>(v, t). ((y, v, d), t)) (parse_B s)"
| "run_directive (Dir_lit c) (dt, s) = (case s of [] \<Rightarrow> [] | x # t \<Rightarrow> if x = c then [(dt, t)] else [])"
| "run_directive Dir_space (dt, s) = map (\<lambda>t. (dt, t)) (parse_space s)"

fun run_format :: "directive list \<Rightarrow> date \<times> string \<Rightarrow> (date \<times> string) list" where
  "run_format [] st = [st]"
| "run_format (d # ds) st = concat (map (run_format ds) (run_directive d st))"

definition is_leap :: "nat \<Rightarrow> bool" where
  "is_leap y = (y mod 4 = 0 \<and> (y mod 100 \<noteq> 0 \<or> y mod 400 = 0))"

definition days_in_month :: "nat \<Rightarrow> nat \<Rightarrow> nat" where
  "days_in_month y m =
     (if m = 2 then (if is_leap y then 29 else 28)
      else if m \<in> set [4, 6, 9, 11] then 30 else 31)"

definition valid_date :: "date \<Rightarrow> bool" where
  "valid_date dt =
     (case dt of (y, m, d) \<Rightarrow>
        1 \<le> y \<and> y \<le> 9999 \<and> 1 \<le> m \<and> m \<le> 12 \<and> 1 \<le> d \<and> d \<le> days_in_month y m)"

text \<open>
  \<open>strptime\<close> raises \<open>ValueError\<close> (here \<open>None\<close>) when nothing matches, when text remains
  after the first match, and when the fields are not a date of the calendar.
\<close>

definition strptime :: "string \<Rightarrow> directive list \<Rightarrow> date option" where
  "strptime s fmt =
     (case run_format fmt ((1900, 1, 1), s) of
        [] \<Rightarrow> None
      | (dt, rest) # _ \<Rightarrow> if rest \<noteq> [] then None else if valid_date dt then Some dt else None)"

definition digit_char :: "nat \<Rightarrow> char" where
  "digit_char n = digits ! (n mod 10)"

definition show2 :: "nat \<Rightarrow> string" where
  "show2 n = [digit_char (n div 10), digit_char n]"

definition show4 :: "nat \<Rightarrow> string" where
  "show4 n = [digit_char (n div 1000), digit_char (n div 100), digit_char (n div 10), digit_char n]"

text \<open>\<open>strftime('%Y-%m-%d')\<close>, for a year of four digits.\<close>

definition strftime_iso :: "date \<Rightarrow> string" where
  "strftime_iso dt = (case dt of (y, m, d) \<Rightarrow> show4 y @ ''-'' @ show2 m @ ''-'' @ show2 d)"

text \<open>
  \<open>parsed_date > datetime.now()\<close>: the parsed date is a midnight, so it is later than now
  exactly when its day is after today.
\<close>

definition date_after :: "date \<Rightarrow> date \<Rightarrow> bool" where
  "date_after a b =
     (case (a, b) of ((y, m, d), (y', m', d')) \<Rightarrow>
        y > y' \<or> (y = y' \<and> (m > m' \<or> (m = m' \<and> d > d'))))"

section \<open>validators.py\<close>

definition wrong :: "string \<Rightarrow> verdict" where
  "wrong msg = (None, Some msg, ''wrong'')"

definition correct :: "string \<Rightarrow> verdict" where
  "correct formatted = (Some formatted, None, ''correct'')"

text \<open>\<open>not value or not isinstance(value, str)\<close>\<close>

definition not_a_text :: "pyval \<Rightarrow> bool" where
  "not_a_text v = (case v of PyStr s \<Rightarrow> s = [] | _ \<Rightarrow> True)"

text \<open>\<open>^[A-Z][a-zA-Z'-]*$\<close>\<close>

definition name_part_re :: re where
  "name_part_re =
     Seqs [Bol, Cls is_upper, Star (Cls (\<lambda>c. is_alpha c \<or> c = CHR 0x27 \<or> c = CHR ''-'')), Eol]"

text \<open>The loop over the parts of the name: the first part that fails gives the verdict.\<close>

fun check_name_parts :: "human_name \<Rightarrow> string list \<Rightarrow> verdict option" where
  "check_name_parts name [] = None"
| "check_name_parts name (part # parts) =
     (if part \<in> set (hn_titles name) \<or> part \<in> set (hn_suffixes name)
      then check_name_parts name parts
      else if \<not> re_match name_part_re part then Some (wrong (''Invalid name part: '' @ part))
      else if length part < 2 then Some (wrong (''Name part too short: '' @ part))
      else if length part > 20 then Some (wrong (''Name part too long: '' @ part))
      else check_name_parts name parts)"

definition DataValidator_validate_and_format_full_name :: "'n libs \<Rightarrow> pyval \<Rightarrow> pyexn + verdict" where
  "DataValidator_validate_and_format_full_name L v =
     (case v of
        PyStr s \<Rightarrow>
          if s = [] then Inr (wrong ''Invalid name format'')
          else (case HumanName L (strip s) of
                  Inl e \<Rightarrow> Inr (wrong (''Error validating name: '' @ e))
                | Inr name \<Rightarrow>
                    if hn_first name = [] \<and> hn_last name = [] then Inr (wrong ''Invalid name format'')
                    else let formatted = hn_str name; name_parts = split formatted
                         in if length name_parts > 5 then Inr (wrong ''Name has too many parts'')
                            else (case check_name_parts name name_parts of
                                    Some w \<Rightarrow> Inr w
                                  | None \<Rightarrow> Inr (correct formatted)))
      | _ \<Rightarrow> Inr (wrong ''Invalid name format''))"

definition fmt_dmY_slash :: "directive list" where
  "fmt_dmY_slash = [Dir_d, Dir_lit CHR ''/'', Dir_m, Dir_lit CHR ''/'', Dir_Y]"

definition fmt_mdY_slash :: "directive list" where
  "fmt_mdY_slash = [Dir_m, Dir_lit CHR ''/'', Dir_d, Dir_lit CHR ''/'', Dir_Y]"

definition fmt_Ymd_slash :: "directive list" where
  "fmt_Ymd_slash = [Dir_Y, Dir_lit CHR ''/'', Dir_m, Dir_lit CHR ''/'', Dir_d]"

definition fmt_dmY_dash :: "directive list" where
  "fmt_dmY_dash = [Dir_d, Dir_lit CHR ''-'', Dir_m, Dir_lit CHR ''-'', Dir_Y]"

definition fmt_mdY_dash :: "directive list" where
  "fmt_mdY_dash = [Dir_m, Dir_lit CHR ''-'', Dir_d, Dir_lit CHR ''-'', Dir_Y]"

definition fmt_Ymd_dash :: "directive list" where
  "fmt_Ymd_dash = [Dir_Y, Dir_lit CHR ''-'', Dir_m, Dir_lit CHR ''-'', Dir_d]"

definition fmt_dbY :: "directive list" where
  "fmt_dbY = [Dir_d, Dir_space, Dir_b, Dir_space, Dir_Y]"

definition fmt_dBY :: "directive list" where
  "fmt_dBY = [Dir_d, Dir_space, Dir_B, Dir_space, Dir_Y]"

definition formats :: "directive list list" where
  "formats = [fmt_dmY_slash, fmt_mdY_slash, fmt_Ymd_slash,
              fmt_dmY_dash, fmt_mdY_dash, fmt_Ymd_dash,
              fmt_dbY, fmt_dBY]"

text \<open>The loop over the formats: the first format that parses gives the date.\<close>

fun try_formats :: "string \<Rightarrow> directive list list \<Rightarrow> date option" where
  "try_formats s [] = None"
| "try_formats s (fmt # fmts) =
     (case strptime s fmt of Some dt \<Rightarrow> Some dt | None \<Rightarrow> try_formats s fmts)"

definition validate_and_format_date :: "'n libs \<Rightarrow> pyval \<Rightarrow> pyexn + verdict" where
  "validate_and_format_date L v =
     (case v of
        PyStr s \<Rightarrow>
          if s = [] then Inr (wrong ''Invalid date format'')
          else (case try_formats (strip s) formats of
                  None \<Rightarrow> Inr (wrong ''Invalid date format'')
                | Some parsed_date \<Rightarrow>
                    let current_year = fst (today L); year = fst parsed_date
                    in if year < 1900 \<or> year > current_year
                       then Inr (wrong ''Year out of reasonable range'')
                       else if date_after parsed_date (today L)
                       then Inr (wrong ''Date cannot be in the future'')
                       else Inr (correct (strftime_iso parsed_date)))
      | _ \<Rightarrow> Inr (wrong ''Invalid date format''))"

text \<open>
  In \<open>validate_and_format_phone\<close> the second attempt, with the region \<open>IN\<close>, is kept as the
  source has it, under its test \<open>not cleaned.startswith('+')\<close> on the reassigned \<open>cleaned\<close>.
\<close>

text \<open>\<open>re.sub(r'[^\d+\-]', '', value)\<close>\<close>

definition phone_chars :: "string \<Rightarrow> string" where
  "phone_chars s = filter (\<lambda>c. is_digit c \<or> c = CHR ''+'' \<or> c = CHR ''-'') s"

definition validate_and_format_phone :: "'n libs \<Rightarrow> pyval \<Rightarrow> pyexn + verdict" where
  "validate_and_format_phone L v =
     (case v of
        PyStr s \<Rightarrow>
          if s = [] then Inr (wrong ''Invalid phone number format'')
          else
            let cleaned0 = phone_chars s;
                cleaned = (if \<not> startswith cleaned0 ''+'' then ''+91'' @ cleaned0 else cleaned0)
            in (case parse L cleaned None of
                  Inl e \<Rightarrow> Inr (wrong (''Error validating phone: '' @ e))
                | Inr number \<Rightarrow>
                    if is_valid_number L number
                    then Inr (correct (format_number L number INTERNATIONAL))
                    else if \<not> startswith cleaned ''+''
                    then (case parse L cleaned (Some ''IN'') of
                            Inl e \<Rightarrow> Inr (wrong (''Error validating phone: '' @ e))
                          | Inr number' \<Rightarrow>
                              if is_valid_number L number'
                              then Inr (correct (format_number L number' INTERNATIONAL))
                              else Inr (wrong ''Invalid phone number''))
                    else Inr (wrong ''Invalid phone number''))
      | _ \<Rightarrow> Inr (wrong ''Invalid phone number format''))"

definition DataValidator_validate_and_format_email :: "'n libs \<Rightarrow> pyval \<Rightarrow> pyexn + verdict" where
  "DataValidator_validate_and_format_email L v =
     (case v of
        PyStr s \<Rightarrow>
          if s = [] then Inr (wrong ''Invalid email format'')
          else (case validate_email L (strip s) of
                  ValidatedEmail n e \<Rightarrow> Inr (correct n)
                | EmailNotValidError msg \<Rightarrow> Inr (None, Some msg, ''wrong'')
                | EmailOtherError msg \<Rightarrow> Inr (wrong (''Error validating email: '' @ msg)))
      | _ \<Rightarrow> Inr (wrong ''Invalid email format''))"

text \<open>
  The validators below call \<open>re.sub\<close>, \<open>re.match\<close> or \<open>value.upper()\<close> on the value at
  once: \<open>re\<close> raises \<open>TypeError\<close> on a value that is not a string, and \<open>None\<close> and integers
  have no attribute \<open>upper\<close>.
\<close>

definition aadhar_re :: re where
  "aadhar_re = Seqs [Bol, Rep 12 12 (Cls is_digit), Eol]"

definition validate_and_format_aadhar :: "pyval \<Rightarrow> pyexn + verdict" where
  "validate_and_format_aadhar v =
     (case v of
        PyStr s \<Rightarrow>
          let cleaned = filter (\<lambda>c. \<not> (c = CHR ''-'' \<or> is_space c)) s
          in if re_match aadhar_re cleaned
             then Inr (correct (take 4 cleaned @ ''-'' @ take 4 (drop 4 cleaned) @ ''-'' @ drop 8 cleaned))
             else Inr (wrong ''Invalid Aadhar number'')
      | _ \<Rightarrow> Inl TypeError)"

definition pan_re :: re where
  "pan_re = Seqs [Bol, Rep 5 5 (Cls is_upper), Rep 4 4 (Cls is_digit), Rep 1 1 (Cls is_upper), Eol]"

definition validate_and_format_pan :: "pyval \<Rightarrow> pyexn + verdict" where
  "validate_and_format_pan v =
     (case v of
        PyStr s \<Rightarrow>
          let cleaned = remove_blanks (upper s)
          in if re_match pan_re cleaned then Inr (correct cleaned)
             else Inr (wrong ''Invalid PAN number'')
      | _ \<Rightarrow> Inl AttributeError)"

definition passport_re :: re where
  "passport_re = Seqs [Bol, Rep 6 9 (Cls (\<lambda>c. is_upper c \<or> is_digit c)), Eol]"

definition validate_and_format_passport :: "pyval \<Rightarrow> pyexn + verdict" where
  "validate_and_format_passport v =
     (case v of
        PyStr s \<Rightarrow>
          let cleaned = remove_blanks (upper s)
          in if re_match passport_re cleaned then Inr (correct cleaned)
             else Inr (wrong ''Invalid passport number'')
      | _ \<Rightarrow> Inl AttributeError)"

definition voter_id_re :: re where
  "voter_id_re = Seqs [Bol, Rep 3 3 (Cls is_upper), Rep 7 7 (Cls is_digit), Eol]"

definition validate_and_format_voter_id :: "pyval \<Rightarrow> pyexn + verdict" where
  "validate_and_format_voter_id v =
     (case v of
        PyStr s \<Rightarrow>
          let cleaned = remove_blanks (upper s)
          in if re_match voter_id_re cleaned then Inr (correct cleaned)
             else Inr (wrong ''Invalid Voter ID number'')
      | _ \<Rightarrow> Inl AttributeError)"

definition driving_license_re :: re where
  "driving_license_re =
     Seqs [Bol, Rep 2 2 (Cls is_upper), Rep 2 2 (Cls is_digit),
           Rep 1 2 (Cls (\<lambda>c. is_upper c \<or> is_digit c)), Rep 4 7 (Cls is_digit), Eol]"

definition validate_and_format_driving_license :: "pyval \<Rightarrow> pyexn + verdict" where
  "validate_and_format_driving_license v =
     (case v of
        PyStr s \<Rightarrow>
          let cleaned = remove_blanks (upper s)
          in if re_match driving_license_re cleaned then Inr (correct cleaned)
             else Inr (wrong ''Invalid driving license number'')
      | _ \<Rightarrow> Inl AttributeError)"

definition bank_account_re :: re where
  "bank_account_re = Seqs [Bol, Rep 8 18 (Cls is_digit), Eol]"

definition validate_and_format_bank_account :: "pyval \<Rightarrow> pyexn + verdict" where
  "validate_and_format_bank_account v =
     (case v of
        PyStr s \<Rightarrow>
          let cleaned = filter is_digit s
          in if re_match bank_account_re cleaned then Inr (correct cleaned)
             else Inr (wrong ''Invalid bank account number'')
      | _ \<Rightarrow> Inl TypeError)"

text \<open>
  The issuer alternatives of the card pattern, shared by the validator (between \<open>^\<close> and
  \<open>$\<close>) and by the pattern table (between two \<open>\b\<close>).
\<close>

definition card_issuers :: re where
  "card_issuers =
     Alts [Seqs [Lit CHR ''4'', Rep 12 12 (Cls is_digit), Opt (Rep 3 3 (Cls is_digit))],
           Seqs [Lit CHR ''5'', OneOf ''12345'', Rep 14 14 (Cls is_digit)],
           Seqs [Lit CHR ''6'', Alt (Lits ''011'') (Seqs [Lit CHR ''5'', Cls is_digit, Cls is_digit]),
                 Rep 12 12 (Cls is_digit)],
           Seqs [Lit CHR ''3'', OneOf ''47'', Rep 13 13 (Cls is_digit)],
           Seqs [Lit CHR ''3'', Alt (Seq (Lit CHR ''0'') (OneOf ''012345''))
                                    (Seq (OneOf ''68'') (Cls is_digit)),
                 Rep 11 11 (Cls is_digit)],
           Seqs [Alts [Lits ''2131'', Lits ''1800'', Seq (Lits ''35'') (Rep 3 3 (Cls is_digit))],
                 Rep 11 11 (Cls is_digit)]]"

definition credit_card_re :: re where
  "credit_card_re = Seqs [Bol, card_issuers, Eol]"

text \<open>\<open>cleaned[i:i+4] for i in range(0, len(cleaned), 4)\<close>\<close>

function groups_of_4 :: "string \<Rightarrow> string list" where
  "groups_of_4 s = (if s = [] then [] else take 4 s # groups_of_4 (drop 4 s))"
  by pat_completeness auto
termination
  by (relation "measure length") auto

declare groups_of_4.simps [simp del]

definition validate_and_format_credit_card :: "pyval \<Rightarrow> pyexn + verdict" where
  "validate_and_format_credit_card v =
     (case v of
        PyStr s \<Rightarrow>
          let cleaned = filter is_digit s
          in if re_match credit_card_re cleaned
             then Inr (correct (join ''-'' (groups_of_4 cleaned)))
             else Inr (wrong ''Invalid credit card number'')
      | _ \<Rightarrow> Inl TypeError)"

text \<open>An octet: \<open>25[0-5]|2[0-4][0-9]|[01]?[0-9][0-9]?\<close>\<close>

definition octet :: re where
  "octet =
     Alts [Seqs [Lit CHR ''2'', Lit CHR ''5'', OneOf ''012345''],
           Seqs [Lit CHR ''2'', OneOf ''01234'', Cls is_digit],
           Seqs [Opt (OneOf ''01''), Cls is_digit, Opt (Cls is_digit)]]"

definition ip_body :: re where
  "ip_body = Seq (Rep 3 3 (Seq octet (Lit CHR ''.''))) octet"

definition ip_re :: re where
  "ip_re = Seqs [Bol, ip_body, Eol]"

definition validate_and_format_ip :: "pyval \<Rightarrow> pyexn + verdict" where
  "validate_and_format_ip v =
     (case v of
        PyStr s \<Rightarrow>
          if re_match ip_re s then Inr (correct s) else Inr (wrong ''Invalid IP address'')
      | _ \<Rightarrow> Inl TypeError)"

text \<open>The dictionary of \<open>get_validator_for_type\<close>; \<open>validators.get\<close> gives \<open>None\<close> for any other key.\<close>

definition validators :: "'n libs \<Rightarrow> (string \<times> (pyval \<Rightarrow> pyexn + verdict)) list" where
  "validators L =
     [(''full_name'', DataValidator_validate_and_format_full_name L),
      (''date_of_birth'', validate_and_format_date L),
      (''mobile_number'', validate_and_format_phone L),
      (''telephone_number'', validate_and_format_phone L),
      (''email_address'', DataValidator_validate_and_format_email L),
      (''aadhar_number'', validate_and_format_aadhar),
      (''pan_number'', validate_and_format_pan),
      (''passport_number'', validate_and_format_passport),
      (''voter_id_number'', validate_and_format_voter_id),
      (''driving_license_number'', validate_and_format_driving_license),
      (''bank_account_number'', validate_and_format_bank_account),
      (''credit_debit_card_number'', validate_and_format_credit_card),
      (''ip_address'', validate_and_format_ip)]"

definition get_validator_for_type :: "'n libs \<Rightarrow> string \<Rightarrow> (pyval \<Rightarrow> pyexn + verdict) option" where
  "get_validator_for_type L data_type = map_of (validators L) data_type"

section \<open>app.py: the pattern table\<close>

definition digit :: re where
  "digit = Cls is_digit"

definition sep :: re where
  "sep = Opt (OneOf ''- '')"

definition full_name_pattern :: re where
  "full_name_pattern =
     Seqs [WordB,
           Opt (Alts [Lits ''Mr.'', Lits ''Mrs.'', Lits ''Ms.'', Lits ''Dr.'', Lits ''Prof.'']),
           Star (Cls is_space), Cls is_upper, Plus (Cls is_lower),
           Rep 0 3 (Seqs [Plus (Cls is_space), Cls is_upper, Plus (Cls is_lower)]),
           WordB]"

definition date_of_birth_pattern :: re where
  "date_of_birth_pattern =
     Seqs [WordB,
           Alts [Seqs [Rep 1 2 digit, OneOf ''-/'', Rep 1 2 digit, OneOf ''-/'', Rep 2 4 digit],
                 Seqs [Rep 4 4 digit, OneOf ''-/'', Rep 1 2 digit, OneOf ''-/'', Rep 1 2 digit],
                 Seqs [Alts (map Lits [''Jan'', ''Feb'', ''Mar'', ''Apr'', ''May'', ''Jun'',
                                       ''Jul'', ''Aug'', ''Sep'', ''Oct'', ''Nov'', ''Dec'']),
                       Star (Cls is_lower), Lit CHR '' '', Rep 1 2 digit, Opt (Lit CHR '',''),
                       Lit CHR '' '', Rep 4 4 digit]],
           WordB]"

definition mobile_number_pattern :: re where
  "mobile_number_pattern =
     Seqs [Opt (Seq (Lits ''+91'') sep), OneOf ''6789'', Rep 9 9 digit]"

definition telephone_number_pattern :: re where
  "telephone_number_pattern =
     Seqs [Opt (Seqs [Opt (Lit CHR ''+''), Rep 1 4 digit, sep]),
           Rep 2 4 digit, sep, Rep 3 4 digit, sep, Rep 3 4 digit]"

definition email_pattern :: re where
  "email_pattern =
     Seqs [Plus (Cls (\<lambda>c. is_alnum c \<or> c \<in> set ''._%+-'')), Lit CHR ''@'',
           Plus (Cls (\<lambda>c. is_alnum c \<or> c \<in> set ''.-'')), Lit CHR ''.'',
           RepMin 2 (Cls is_alpha)]"

definition address_text :: re where
  "address_text = Plus (Cls (\<lambda>c. is_alpha c \<or> is_space c \<or> c \<in> set '',.-''))"

definition residential_address_pattern :: re where
  "residential_address_pattern =
     Seqs [WordB, Plus digit, Plus (Cls is_space), address_text,
           Alts (map Lits [''Street'', ''St'', ''Avenue'', ''Ave'', ''Road'', ''Rd'', ''Boulevard'',
                           ''Blvd'', ''Lane'', ''Ln'', ''Drive'', ''Dr'', ''Court'', ''Ct'',
                           ''Circle'', ''Cir'', ''Way'', ''Place'', ''Pl'']),
           Plus (Cls (\<lambda>c. c = CHR '','' \<or> is_space c)), address_text,
           Rep 2 2 (Cls is_upper), Plus (Cls is_space), Rep 5 5 digit,
           Opt (Seq (Lit CHR ''-'') (Rep 4 4 digit)), WordB]"

definition aadhar_number_pattern :: re where
  "aadhar_number_pattern =
     Seqs [WordB, Rep 4 4 digit, sep, Rep 4 4 digit, sep, Rep 4 4 digit, WordB]"

definition pan_number_pattern :: re where
  "pan_number_pattern =
     Seqs [WordB, Rep 5 5 (Cls is_upper), Rep 4 4 digit, Rep 1 1 (Cls is_upper), WordB]"

definition passport_number_pattern :: re where
  "passport_number_pattern = Seqs [WordB, Rep 6 9 (Cls (\<lambda>c. is_upper c \<or> is_digit c)), WordB]"

definition voter_id_number_pattern :: re where
  "voter_id_number_pattern = Seqs [WordB, Rep 3 3 (Cls is_upper), Rep 7 7 digit, WordB]"

definition driving_license_number_pattern :: re where
  "driving_license_number_pattern =
     Seqs [WordB, Rep 2 2 (Cls is_upper), Rep 2 2 digit, sep,
           Rep 1 2 (Cls (\<lambda>c. is_upper c \<or> is_digit c)), sep, Rep 4 7 digit, WordB]"

definition bank_account_number_pattern :: re where
  "bank_account_number_pattern = Seqs [WordB, Rep 8 18 digit, WordB]"

definition credit_debit_card_number_pattern :: re where
  "credit_debit_card_number_pattern = Seqs [WordB, card_issuers, WordB]"

definition ip_address_pattern :: re where
  "ip_address_pattern = Seqs [WordB, ip_body, WordB]"

text \<open>The dictionary \<open>PATTERNS\<close>; the entry of \<open>custom_search\<close> is \<open>None\<close>.\<close>

definition PATTERNS :: "(string \<times> re option) list" where
  "PATTERNS =
     [(''full_name'', Some full_name_pattern),
      (''date_of_birth'', Some date_of_birth_pattern),
      (''mobile_number'', Some mobile_number_pattern),
      (''telephone_number'', Some telephone_number_pattern),
      (''email_address'', Some email_pattern),
      (''residential_address'', Some residential_address_pattern),
      (''aadhar_number'', Some aadhar_number_pattern),
      (''pan_number'', Some pan_number_pattern),
      (''passport_number'', Some passport_number_pattern),
      (''voter_id_number'', Some voter_id_number_pattern),
      (''driving_license_number'', Some driving_license_number_pattern),
      (''bank_account_number'', Some bank_account_number_pattern),
      (''credit_debit_card_number'', Some credit_debit_card_number_pattern),
      (''ip_address'', Some ip_address_pattern),
      (''custom_search'', None)]"

section \<open>app.py: the validators of the name, mobile and e-mail flows\<close>

text \<open>These return the pair (formatted value or \<open>None\<close>, message or \<open>None\<close>).\<close>

definition validate_and_format_full_name :: "'n libs \<Rightarrow> string \<Rightarrow> string option \<times> string option" where
  "validate_and_format_full_name L name0 =
     (let name1 = filter (\<lambda>c. is_word c \<or> is_space c) (strip name0);
          name = join '' '' (split name1)
      in if name = [] then (None, Some ''Name cannot be empty'')
         else (case HumanName L name of
                 Inl e \<Rightarrow> (None, Some e)
               | Inr parsed_name \<Rightarrow>
                   if hn_first parsed_name = [] then (None, Some ''Invalid name format'')
                   else
                     let formatted_name =
                           join '' '' (filter truthy [hn_first parsed_name, hn_middle parsed_name,
                                                      hn_last parsed_name])
                     in if genderize L (hn_first parsed_name) then (Some formatted_name, None)
                        else if length (split formatted_name) \<ge> 1
                                \<and> list_all (\<lambda>part. length part \<ge> 2) (split formatted_name)
                        then (Some formatted_name, None)
                        else (None, Some ''Invalid name format'')))"

definition validate_and_format_mobile_number :: "'n libs \<Rightarrow> string \<Rightarrow> string option \<times> string option" where
  "validate_and_format_mobile_number L number0 =
     (let number1 = filter is_digit number0;
          number = (if \<not> startswith number1 ''+''
                    then (if startswith number1 ''91'' then ''+'' @ number1 else ''+91'' @ number1)
                    else number1)
      in case parse L number None of
           Inl e \<Rightarrow> (None, Some e)
         | Inr parsed_number \<Rightarrow>
             if is_valid_number L parsed_number
             then (Some (format_number L parsed_number E164), None)
             else (None, Some ''Invalid mobile number''))"

text \<open>Only \<open>EmailNotValidError\<close> is caught here; any other exception leaves the function.\<close>

definition validate_and_format_email :: "'n libs \<Rightarrow> string \<Rightarrow> pyexn + string option \<times> string option" where
  "validate_and_format_email L e =
     (case validate_email L e of
        ValidatedEmail n addr \<Rightarrow> Inr (Some addr, None)
      | EmailNotValidError msg \<Rightarrow> Inr (None, Some msg)
      | EmailOtherError msg \<Rightarrow> Inl (LibraryError msg))"

section \<open>app.py: result records\<close>

text \<open>
  A result is the dictionary the extractor appends: \<open>val\<close> is its key \<open>value\<close>; the key
  \<open>is_valid\<close> is set by \<open>extract_data\<close> only and \<open>filename\<close> by the upload routes only.
\<close>

record result =
  val :: string
  page :: nat
  is_valid :: "bool option"
  validation_message :: "string option"
  status :: string
  pattern_type :: string
  filename :: "string option"

definition truthy_opt :: "string option \<Rightarrow> bool" where
  "truthy_opt x = (case x of None \<Rightarrow> False | Some s \<Rightarrow> s \<noteq> [])"

text \<open>The two dictionaries of the name, mobile and e-mail flows, and the one of custom search.\<close>

definition correct_result :: "string \<Rightarrow> nat \<Rightarrow> string \<Rightarrow> result" where
  "correct_result v page_num ptype =
     \<lparr>val = v, page = page_num, is_valid = None, validation_message = None,
      status = ''correct'', pattern_type = ptype, filename = None\<rparr>"

definition incorrect_result :: "string \<Rightarrow> nat \<Rightarrow> string option \<Rightarrow> string \<Rightarrow> result" where
  "incorrect_result v page_num err ptype =
     \<lparr>val = v, page = page_num, is_valid = None, validation_message = err,
      status = ''incorrect'', pattern_type = ptype, filename = None\<rparr>"

text \<open>\<open>if formatted: ... elif error: ...\<close>: one record, or none when both are falsy.\<close>

definition emit :: "string \<Rightarrow> string option \<times> string option \<Rightarrow> nat \<Rightarrow> string \<Rightarrow> result list" where
  "emit raw fe page_num ptype =
     (case fe of (formatted, err) \<Rightarrow>
        (case formatted of
           Some f \<Rightarrow>
             if f \<noteq> [] then [correct_result f page_num ptype]
             else if truthy_opt err then [incorrect_result raw page_num err ptype] else []
         | None \<Rightarrow> if truthy_opt err then [incorrect_result raw page_num err ptype] else []))"

section \<open>app.py: extract_data\<close>

text \<open>
  The generic scan over the pattern table. \<open>seen\<close> is the set \<open>seen_values\<close>, kept over all
  the pages. \<open>PATTERNS[pattern_type]\<close> raises \<open>KeyError\<close> for a key that is not in the
  table; \<open>re.escape(None)\<close> and \<open>enumerate(None)\<close> raise \<open>TypeError\<close>.
\<close>

fun custom_matches :: "string \<Rightarrow> nat \<Rightarrow> string list \<Rightarrow> string list \<times> result list
                       \<Rightarrow> string list \<times> result list" where
  "custom_matches ptype page_num [] st = st"
| "custom_matches ptype page_num (m # rest) (seen, results) =
     (if m \<in> set seen then custom_matches ptype page_num rest (seen, results)
      else custom_matches ptype page_num rest
             (m # seen,
              results @ [\<lparr>val = m, page = page_num, is_valid = Some True,
                          validation_message = None, status = ''correct'',
                          pattern_type = ptype, filename = None\<rparr>]))"

fun custom_pages :: "re \<Rightarrow> string \<Rightarrow> nat \<Rightarrow> string list \<Rightarrow> string list \<times> result list
                     \<Rightarrow> string list \<times> result list" where
  "custom_pages pattern ptype page_num [] st = st"
| "custom_pages pattern ptype page_num (page_text # rest) st =
     custom_pages pattern ptype (Suc page_num) rest
       (custom_matches ptype page_num (finditer pattern page_text) st)"

fun pattern_matches :: "(pyval \<Rightarrow> pyexn + verdict) option \<Rightarrow> string \<Rightarrow> nat \<Rightarrow> string list
                        \<Rightarrow> string list \<times> result list \<Rightarrow> pyexn + string list \<times> result list" where
  "pattern_matches validator ptype page_num [] st = Inr st"
| "pattern_matches validator ptype page_num (m # rest) (seen, results) =
     (let v = strip m
      in if v \<in> set seen then pattern_matches validator ptype page_num rest (seen, results)
         else (case validator of
                 Some f \<Rightarrow>
                   (case f (PyStr v) of
                      Inl e \<Rightarrow> Inl e
                    | Inr (formatted_value, error_message, st) \<Rightarrow>
                        pattern_matches validator ptype page_num rest
                          (v # seen,
                           results @ [\<lparr>val = (if truthy_opt formatted_value
                                               then (case formatted_value of Some f \<Rightarrow> f | None \<Rightarrow> v)
                                               else v),
                                       page = page_num, is_valid = Some (st = ''correct''),
                                       validation_message = error_message, status = st,
                                       pattern_type = ptype, filename = None\<rparr>]))
               | None \<Rightarrow>
                   pattern_matches validator ptype page_num rest
                     (v # seen,
                      results @ [\<lparr>val = v, page = page_num, is_valid = Some True,
                                  validation_message = None, status = ''correct'',
                                  pattern_type = ptype, filename = None\<rparr>])))"

fun pattern_pages :: "(pyval \<Rightarrow> pyexn + verdict) option \<Rightarrow> re \<Rightarrow> string \<Rightarrow> nat \<Rightarrow> string list
                      \<Rightarrow> string list \<times> result list \<Rightarrow> pyexn + string list \<times> result list" where
  "pattern_pages validator pattern ptype page_num [] st = Inr st"
| "pattern_pages validator pattern ptype page_num (page_text # rest) st =
     (case pattern_matches validator ptype page_num (finditer pattern page_text) st of
        Inl e \<Rightarrow> Inl e
      | Inr st' \<Rightarrow> pattern_pages validator pattern ptype (Suc page_num) rest st')"

definition extract_data :: "'n libs \<Rightarrow> string \<Rightarrow> string \<Rightarrow> string list option \<Rightarrow> string option
                            \<Rightarrow> pyexn + result list" where
  "extract_data L text ptype page_texts search_term =
     (let validator = get_validator_for_type L ptype
      in if ptype = ''custom_search''
         then (case search_term of
                 None \<Rightarrow> Inl TypeError
               | Some term \<Rightarrow>
                   (case page_texts of
                      None \<Rightarrow> Inl TypeError
                    | Some pages \<Rightarrow>
                        Inr (snd (custom_pages (escape_ignorecase term) ptype 1 pages ([], [])))))
         else (case map_of PATTERNS ptype of
                 None \<Rightarrow> Inl KeyError
               | Some None \<Rightarrow> Inl TypeError
               | Some (Some pattern) \<Rightarrow>
                   (case page_texts of
                      None \<Rightarrow> Inl TypeError
                    | Some pages \<Rightarrow>
                        (case pattern_pages validator pattern ptype 1 pages ([], []) of
                           Inl e \<Rightarrow> Inl e
                         | Inr st \<Rightarrow> Inr (snd st)))))"

section \<open>app.py: extract_data_from_pdf\<close>

text \<open>
  A document is the list of the texts of its pages, or a file that \<open>fitz.open\<close> cannot
  read. The function has four branches, one for each of \<open>full_name\<close>, \<open>mobile_number\<close>,
  \<open>email_address\<close> and \<open>custom_search\<close> with a search term; it does not call
  \<open>extract_data\<close>. Any exception inside it is caught and the result is then \<open>[]\<close>.
\<close>

datatype document = Unreadable | Pages "string list"

text \<open>The named entities of one page; \<open>seen\<close> is \<open>seen_names\<close>, which starts empty on every page.\<close>

fun name_entities :: "'n libs \<Rightarrow> string \<Rightarrow> nat \<Rightarrow> (string \<times> string) list \<Rightarrow> string list
                      \<Rightarrow> result list" where
  "name_entities L ptype page_num [] seen = []"
| "name_entities L ptype page_num ((label, ent_text) # rest) seen =
     (if label = ''PERSON''
      then (let name = strip ent_text
            in if name \<noteq> [] \<and> name \<notin> set seen
               then emit name (validate_and_format_full_name L name) page_num ptype
                    @ name_entities L ptype page_num rest (name # seen)
               else name_entities L ptype page_num rest seen)
      else name_entities L ptype page_num rest seen)"

definition mobile_patterns :: "re list" where
  "mobile_patterns =
     [Seqs [Opt (Alt (Lits ''+91'') (Lits ''91'')), OneOf ''6789'', Rep 9 9 digit],
      Seqs [Opt (Alt (Lits ''+91'') (Lits ''91'')), OneOf ''789'', Rep 9 9 digit]]"

fun email_matches :: "'n libs \<Rightarrow> string \<Rightarrow> nat \<Rightarrow> string list \<Rightarrow> pyexn + result list" where
  "email_matches L ptype page_num [] = Inr []"
| "email_matches L ptype page_num (m # rest) =
     (case validate_and_format_email L m of
        Inl e \<Rightarrow> Inl e
      | Inr fe \<Rightarrow>
          (case email_matches L ptype page_num rest of
             Inl e \<Rightarrow> Inl e
           | Inr rs \<Rightarrow> Inr (emit m fe page_num ptype @ rs)))"

definition page_results :: "'n libs \<Rightarrow> string \<Rightarrow> string option \<Rightarrow> nat \<Rightarrow> string
                            \<Rightarrow> pyexn + result list" where
  "page_results L ptype search_term page_num text =
     (if ptype = ''full_name'' then Inr (name_entities L ptype page_num (nlp L text) [])
      else if ptype = ''mobile_number''
      then Inr (concat (map (\<lambda>pattern.
                  concat (map (\<lambda>number. emit number (validate_and_format_mobile_number L number)
                                              page_num ptype)
                              (finditer pattern text)))
                mobile_patterns))
      else if ptype = ''email_address'' then email_matches L ptype page_num (finditer email_pattern text)
      else if ptype = ''custom_search'' \<and> truthy_opt search_term
      then Inr (map (\<lambda>m. correct_result m page_num ptype)
                    (finditer (escape_ignorecase (case search_term of Some t \<Rightarrow> t | None \<Rightarrow> [])) text))
      else Inr [])"

text \<open>\<open>not text or text.strip() == ''\<close>\<close>

definition no_text :: "string \<Rightarrow> bool" where
  "no_text text = (text = [] \<or> strip text = [])"

text \<open>The loop over the pages; \<open>page_num\<close> counts from 0 and a record carries \<open>page_num + 1\<close>.\<close>

fun pages_loop :: "'n libs \<Rightarrow> string \<Rightarrow> string option \<Rightarrow> nat \<Rightarrow> string list \<Rightarrow> pyexn + result list" where
  "pages_loop L ptype search_term page_num [] = Inr []"
| "pages_loop L ptype search_term page_num (text # rest) =
     (if no_text text then pages_loop L ptype search_term (Suc page_num) rest
      else (case page_results L ptype search_term (page_num + 1) text of
              Inl e \<Rightarrow> Inl e
            | Inr rs \<Rightarrow>
                (case pages_loop L ptype search_term (Suc page_num) rest of
                   Inl e \<Rightarrow> Inl e
                 | Inr rs' \<Rightarrow> Inr (rs @ rs'))))"

definition extract_data_from_pdf :: "'n libs \<Rightarrow> document \<Rightarrow> string \<Rightarrow> string option \<Rightarrow> result list" where
  "extract_data_from_pdf L doc ptype search_term =
     (case doc of
        Unreadable \<Rightarrow> []
      | Pages texts \<Rightarrow>
          (case pages_loop L ptype search_term 0 texts of Inl e \<Rightarrow> [] | Inr results \<Rightarrow> results))"

section \<open>app.py: the upload routes and the summary\<close>

text \<open>
  An uploaded file has its name and its content; \<open>save_raises\<close> and \<open>remove_raises\<close> say
  whether \<open>file.save\<close> and \<open>os.remove\<close> raise for it, and with which text. The list
  \<open>extracted_data\<close> of the module is passed in and returned. A response is the JSON object
  of the route: \<open>Failure\<close> is \<open>{'success': False, 'error': ...}\<close>.
\<close>

record upload =
  up_filename :: string
  up_document :: document
  save_raises :: "string option"
  remove_raises :: "string option"

datatype 'a response = Failure string | Success 'a

record batch_response =
  data :: "result list"
  processed_files :: "(string \<times> nat) list"
  errors :: "(string \<times> string) list"
  total_files :: nat
  successful_files :: nat
  failed_files :: nat

text \<open>\<open>request.form.get('pattern_type', 'full_name')\<close>\<close>

definition form_pattern_type :: "string option \<Rightarrow> string" where
  "form_pattern_type f = (case f of None \<Rightarrow> ''full_name'' | Some p \<Rightarrow> p)"

definition tag :: "string \<Rightarrow> result list \<Rightarrow> result list" where
  "tag fname results = map (\<lambda>r. r\<lparr>filename := Some fname\<rparr>) results"

text \<open>
  The loop of \<open>upload_multiple_files\<close> over the files, on the three lists \<open>all_results\<close>,
  \<open>processed_files\<close> and \<open>errors\<close>. The \<open>except\<close> of the loop appends to \<open>errors\<close>; what was
  appended to the other two lists before the exception stays.
\<close>

fun process_files :: "'n libs \<Rightarrow> string \<Rightarrow> string option \<Rightarrow> upload list
                      \<Rightarrow> result list \<times> (string \<times> nat) list \<times> (string \<times> string) list
                      \<Rightarrow> result list \<times> (string \<times> nat) list \<times> (string \<times> string) list" where
  "process_files L ptype search_term [] acc = acc"
| "process_files L ptype search_term (file # files) (all_results, processed, errs) =
     (if endswith (up_filename file) ''.pdf''
      then (case save_raises file of
              Some e \<Rightarrow>
                process_files L ptype search_term files
                  (all_results, processed, errs @ [(up_filename file, e)])
            | None \<Rightarrow>
                let fname = secure_filename L (up_filename file);
                    results = tag fname (extract_data_from_pdf L (up_document file) ptype search_term);
                    all_results' = all_results @ results;
                    processed' = processed @ [(fname, length results)]
                in (case remove_raises file of
                      Some e \<Rightarrow>
                        process_files L ptype search_term files
                          (all_results', processed', errs @ [(up_filename file, e)])
                    | None \<Rightarrow>
                        process_files L ptype search_term files (all_results', processed', errs)))
      else process_files L ptype search_term files
             (all_results, processed,
              errs @ [(up_filename file, ''Invalid file type (only PDF files are supported)'')]))"

definition upload_multiple_files :: "'n libs \<Rightarrow> upload list option \<Rightarrow> string option \<Rightarrow> string option
                                     \<Rightarrow> result list \<Rightarrow> batch_response response \<times> result list" where
  "upload_multiple_files L files_part form_type search_term extracted_data =
     (case files_part of
        None \<Rightarrow> (Failure ''No files part'', extracted_data)
      | Some [] \<Rightarrow> (Failure ''No selected files'', extracted_data)
      | Some (first # others) \<Rightarrow>
          if up_filename first = [] then (Failure ''No selected files'', extracted_data)
          else (case process_files L (form_pattern_type form_type) search_term (first # others)
                       ([], [], []) of
                  (all_results, processed, errs) \<Rightarrow>
                    (Success \<lparr>data = all_results, processed_files = processed, errors = errs,
                              total_files = length (first # others),
                              successful_files = length processed,
                              failed_files = length errs\<rparr>,
                     extracted_data @ all_results)))"

text \<open>The single upload answers with the records and the stored file name.\<close>

definition upload_file :: "'n libs \<Rightarrow> upload option \<Rightarrow> string option \<Rightarrow> string option
                           \<Rightarrow> result list \<Rightarrow> (result list \<times> string) response \<times> result list" where
  "upload_file L file_part form_type search_term extracted_data =
     (case file_part of
        None \<Rightarrow> (Failure ''No file part'', extracted_data)
      | Some file \<Rightarrow>
          if up_filename file = [] then (Failure ''No selected file'', extracted_data)
          else if endswith (up_filename file) ''.pdf''
          then (case save_raises file of
                  Some e \<Rightarrow> (Failure e, extracted_data)
                | None \<Rightarrow>
                    let fname = secure_filename L (up_filename file);
                        results = tag fname (extract_data_from_pdf L (up_document file)
                                               (form_pattern_type form_type) search_term)
                    in (case remove_raises file of
                          Some e \<Rightarrow> (Failure e, extracted_data @ results)
                        | None \<Rightarrow> (Success (results, fname), extracted_data @ results)))
          else (Failure ''Invalid file type'', extracted_data))"

text \<open>
  The summary of \<open>dashboard_data\<close>. Its key \<open>success_rate\<close> is a Python float, the result
  of \<open>round(valid / total * 100, 2)\<close> in double precision, and is not part of the model.
  \<open>files_breakdown\<close> keeps the file names in the order of their first record, with the
  counts (total, valid, invalid).
\<close>

record summary =
  total :: nat
  valid :: nat
  invalid :: nat
  files_processed :: nat
  files_breakdown :: "(string \<times> nat \<times> nat \<times> nat) list"

definition file_key :: "result \<Rightarrow> string" where
  "file_key item = (case filename item of None \<Rightarrow> ''Unknown File'' | Some f \<Rightarrow> f)"

fun count_in :: "string \<Rightarrow> bool \<Rightarrow> (string \<times> nat \<times> nat \<times> nat) list
                 \<Rightarrow> (string \<times> nat \<times> nat \<times> nat) list" where
  "count_in f ok [] = [(f, 1, (if ok then 1 else 0), (if ok then 0 else 1))]"
| "count_in f ok ((g, t, v, i) # entries) =
     (if g = f then (g, t + 1, (if ok then v + 1 else v), (if ok then i else i + 1)) # entries
      else (g, t, v, i) # count_in f ok entries)"

definition breakdown :: "result list \<Rightarrow> (string \<times> nat \<times> nat \<times> nat) list" where
  "breakdown items = foldl (\<lambda>acc item. count_in (file_key item) (status item = ''correct'') acc) [] items"

definition dashboard_data :: "result list \<Rightarrow> summary" where
  "dashboard_data extracted_data =
     (let t = length extracted_data;
          v = length (filter (\<lambda>item. status item = ''correct'') extracted_data);
          files = breakdown extracted_data
      in \<lparr>total = t, valid = v, invalid = t - v,
          files_processed = length files, files_breakdown = files\<rparr>)"

section \<open>A sample instance of the libraries\<close>

text \<open>
  For running the functions on concrete inputs: a name parser that takes the first and the
  last word, a phone-number library for Indian mobile numbers (a number is its digits with
  the country code; with the region \<open>IN\<close> a number written without \<open>+\<close> is read as a
  national number, or as one with its country code when it has twelve digits and starts
  with 91), an e-mail validator that accepts what has an \<open>@\<close>, no entities, no answer
  from the name service, file names kept as they are.
\<close>

definition sample_HumanName :: "string \<Rightarrow> string + human_name" where
  "sample_HumanName s =
     (let ws = split s
      in Inr \<lparr>hn_first = (case ws of [] \<Rightarrow> [] | w # _ \<Rightarrow> w),
              hn_middle = [],
              hn_last = (case rev ws of [] \<Rightarrow> [] | [w] \<Rightarrow> [] | w # _ \<Rightarrow> w),
              hn_str = join '' '' ws, hn_titles = [], hn_suffixes = []\<rparr>)"

definition sample_parse :: "string \<Rightarrow> string option \<Rightarrow> string + string" where
  "sample_parse s region =
     (case s of
        [] \<Rightarrow> Inl ''The string supplied did not seem to be a phone number.''
      | c # t \<Rightarrow>
          if c = CHR ''+'' \<and> t \<noteq> [] \<and> list_all is_digit t then Inr t
          else if region = Some ''IN'' \<and> list_all is_digit s
          then (if length s = 12 \<and> startswith s ''91'' then Inr s else Inr (''91'' @ s))
          else Inl ''Missing or invalid default region.'')"

definition sample_is_valid_number :: "string \<Rightarrow> bool" where
  "sample_is_valid_number n =
     (length n = 12 \<and> startswith n ''91'' \<and> list_all is_digit n \<and> n ! 2 \<in> set ''6789'')"

definition sample_format_number :: "string \<Rightarrow> PhoneNumberFormat \<Rightarrow> string" where
  "sample_format_number n f =
     (case f of
        E164 \<Rightarrow> ''+'' @ n
      | INTERNATIONAL \<Rightarrow> ''+'' @ take 2 n @ '' '' @ take 5 (drop 2 n) @ '' '' @ drop 7 n)"

definition sample_validate_email :: "string \<Rightarrow> email_result" where
  "sample_validate_email s =
     (if CHR ''@'' \<in> set s then ValidatedEmail s s
      else EmailNotValidError ''An email address must have an @-sign.'')"

definition sample_libs :: "string libs" where
  "sample_libs =
     \<lparr>HumanName = sample_HumanName, parse = sample_parse,
      is_valid_number = sample_is_valid_number, format_number = sample_format_number,
      validate_email = sample_validate_email, nlp = (\<lambda>text. []), genderize = (\<lambda>name. False),
      secure_filename = (\<lambda>name. name), today = (2025, 6, 30)\<rparr>"

section \<open>Notions used in the statements\<close>

text \<open>The character before the position reached by reading \<open>m\<close> from a position after \<open>pv\<close>.\<close>

definition prev_after :: "char option \<Rightarrow> string \<Rightarrow> char option" where
  "prev_after pv m = (if m = [] then pv else Some (last m))"

section \<open>The entry point and the field types it has no branch for\<close>

lemma page_results_other:
  "ptype \<noteq> ''full_name'' \<Longrightarrow> ptype \<noteq> ''mobile_number'' \<Longrightarrow> ptype \<noteq> ''email_address''
   \<Longrightarrow> ptype \<noteq> ''custom_search'' \<Longrightarrow> page_results L ptype st n text = Inr []"
  by (simp add: page_results_def)

lemma pages_loop_other:
  "ptype \<noteq> ''full_name'' \<Longrightarrow> ptype \<noteq> ''mobile_number'' \<Longrightarrow> ptype \<noteq> ''email_address''
   \<Longrightarrow> ptype \<noteq> ''custom_search'' \<Longrightarrow> pages_loop L ptype st n texts = Inr []"
  by (induction texts arbitrary: n) (simp_all add: page_results_other)

lemma extract_other:
  "ptype \<noteq> ''full_name'' \<Longrightarrow> ptype \<noteq> ''mobile_number'' \<Longrightarrow> ptype \<noteq> ''email_address''
   \<Longrightarrow> ptype \<noteq> ''custom_search'' \<Longrightarrow> extract_data_from_pdf L doc ptype st = []"
  by (cases doc) (simp_all add: extract_data_from_pdf_def pages_loop_other)

lemma not_in_PATTERNS:
  "ptype \<notin> set (map fst PATTERNS) \<Longrightarrow>
     ptype \<noteq> ''full_name'' \<and> ptype \<noteq> ''mobile_number'' \<and> ptype \<noteq> ''email_address''
     \<and> ptype \<noteq> ''custom_search''"
  by (auto simp: PATTERNS_def)

text \<open>
  C1 (the code departs from the claim). The claim: for a regex-based field type such as
  \<open>pan_number\<close>, \<open>extract_data_from_pdf\<close> scans each page with the field's pattern and
  emits a record per validated candidate, so a page with a valid PAN yields a record.
  What the code does: on the one-page document \<open>ABCDE1234F\<close>, \<open>extract_data_from_pdf\<close>
  returns no record for \<open>pan_number\<close>, with any libraries; the generic scan \<open>extract_data\<close>,
  which the entry point never calls, returns the one record on the same page.
\<close>

theorem pan_number_yields_no_record:
  "extract_data_from_pdf L (Pages [''ABCDE1234F'']) ''pan_number'' None = []
   \<and> extract_data L [] ''pan_number'' (Some [''ABCDE1234F'']) None =
       Inr [\<lparr>val = ''ABCDE1234F'', page = 1, is_valid = Some True, validation_message = None,
             status = ''correct'', pattern_type = ''pan_number'', filename = None\<rparr>]"
proof
  show "extract_data_from_pdf L (Pages [''ABCDE1234F'']) ''pan_number'' None = []"
    by (rule extract_other) simp_all
  show "extract_data L [] ''pan_number'' (Some [''ABCDE1234F'']) None =
       Inr [\<lparr>val = ''ABCDE1234F'', page = 1, is_valid = Some True, validation_message = None,
             status = ''correct'', pattern_type = ''pan_number'', filename = None\<rparr>]"
    by code_simp
qed

text \<open>
  C2 (the code departs from the claim). The claim: the raw text of the records of one
  run is unique over the document, so the same e-mail address on two pages gives one
  record, with page 1. What the code does: the e-mail branch keeps no set of seen values;
  when the library accepts \<open>a@b.com\<close>, the two-page document gives two records for it,
  one with page 1 and one with page 2.
\<close>

theorem email_on_two_pages_gives_two_records:
  assumes "validate_email L ''a@b.com'' = ValidatedEmail ''a@b.com'' ''a@b.com''"
  shows "extract_data_from_pdf L (Pages [''a@b.com'', ''a@b.com'']) ''email_address'' None =
           [correct_result ''a@b.com'' 1 ''email_address'',
            correct_result ''a@b.com'' 2 ''email_address'']"
proof -
  have f: "finditer email_pattern ''a@b.com'' = [''a@b.com'']"
    by code_simp
  have n: "\<not> no_text ''a@b.com''"
    by code_simp
  show ?thesis
    by (simp add: extract_data_from_pdf_def n page_results_def f validate_and_format_email_def
          assms emit_def numeral_2_eq_2)
qed

theorem email_on_two_pages_witness:
  "validate_email sample_libs ''a@b.com'' = ValidatedEmail ''a@b.com'' ''a@b.com''
   \<and> map page (extract_data_from_pdf sample_libs (Pages [''a@b.com'', ''a@b.com''])
                  ''email_address'' None) = [1, 2]"
proof -
  have v: "validate_email sample_libs ''a@b.com'' = ValidatedEmail ''a@b.com'' ''a@b.com''"
    by (simp add: sample_libs_def sample_validate_email_def)
  show ?thesis
    using email_on_two_pages_gives_two_records [OF v] v by (simp add: correct_result_def)
qed

text \<open>
  C4, as stated, fails: a request for a field identifier outside the fixed set does not
  fail. The upload of a one-page PDF with the identifier \<open>no_such_field\<close> answers with
  success and an empty record list.
\<close>

theorem unknown_field_counterexample:
  "upload_file sample_libs
     (Some \<lparr>up_filename = ''scan.pdf'', up_document = Pages [''ABCDE1234F''],
            save_raises = None, remove_raises = None\<rparr>)
     (Some ''no_such_field'') None [] = (Success ([], ''scan.pdf''), [])"
  by code_simp

text \<open>
  C4, amended: a field identifier that is not a key of the pattern table is not refused.
  \<open>extract_data_from_pdf\<close> returns the empty list for it on every document, and the upload
  of a PDF that is saved and removed without error answers with success, no records and
  the stored file name, and leaves the log as it was.
\<close>

theorem unknown_field_gives_no_records:
  assumes "ptype \<notin> set (map fst PATTERNS)"
  shows "extract_data_from_pdf L doc ptype search_term = []
         \<and> (endswith (up_filename file) ''.pdf'' \<and> save_raises file = None
              \<and> remove_raises file = None
            \<longrightarrow> upload_file L (Some file) (Some ptype) search_term extracted_data =
                  (Success ([], secure_filename L (up_filename file)), extracted_data))"
proof -
  from assms have e: "extract_data_from_pdf L d ptype search_term = []" for d
    using not_in_PATTERNS [of ptype] by (simp add: extract_other)
  have "up_filename file \<noteq> []" if "endswith (up_filename file) ''.pdf''"
    using that by (auto simp: endswith_def)
  then show ?thesis
    by (auto simp: e upload_file_def form_pattern_type_def tag_def)
qed

theorem unknown_field_witness:
  "''no_such_field'' \<notin> set (map fst PATTERNS)
   \<and> extract_data_from_pdf sample_libs (Pages [''ABCDE1234F'']) ''no_such_field'' None = []
   \<and> upload_file sample_libs
       (Some \<lparr>up_filename = ''a.pdf'', up_document = Unreadable,
              save_raises = None, remove_raises = None\<rparr>)
       (Some ''no_such_field'') (Some ''x'') [] = (Success ([], ''a.pdf''), [])"
proof -
  have h: "''no_such_field'' \<notin> set (map fst PATTERNS)"
    by (simp add: PATTERNS_def)
  have p: "endswith ''a.pdf'' ''.pdf''"
    by (simp add: endswith_def)
  show ?thesis
    using unknown_field_gives_no_records [OF h, of sample_libs "Pages [''ABCDE1234F'']" None
        "\<lparr>up_filename = ''a.pdf'', up_document = Unreadable, save_raises = None,
          remove_raises = None\<rparr>" "[]"]
      unknown_field_gives_no_records [OF h, of sample_libs Unreadable "Some ''x''"
        "\<lparr>up_filename = ''a.pdf'', up_document = Unreadable, save_raises = None,
          remove_raises = None\<rparr>" "[]"] h p
    by (simp add: sample_libs_def)
qed

section \<open>The matcher on repeated classes\<close>

lemma concat_concat_map: "concat (concat (map f xs)) = concat (map (\<lambda>x. concat (f x)) xs)"
  by (induction xs) simp_all

lemma ms_Seq_fun: "ms (Seq b c) = (\<lambda>x. concat (map (ms c) (ms b x)))"
  by (rule ext) simp

lemma ms_Seq_assoc: "ms (Seq (Seq a b) c) z = ms (Seq a (Seq b c)) z"
  by (simp add: map_concat comp_def concat_concat_map ms_Seq_fun)

lemma ms_exact_rep_Cls:
  "ms (exact_rep n (Cls p) k) (pv, s) =
     (if n \<le> length s \<and> list_all p (take n s)
      then ms k (prev_after pv (take n s), drop n s) else [])"
proof (induction n arbitrary: pv s)
  case 0
  then show ?case by (simp add: prev_after_def)
next
  case (Suc n)
  show ?case
  proof (cases s)
    case Nil
    then show ?thesis by simp
  next
    case (Cons c t)
    then show ?thesis
      using Suc [of "Some c" t]
      by (auto simp: prev_after_def take_Suc_conv_app_nth split: if_splits)
  qed
qed

lemma ms_Seq_exact_rep:
  "ms (Seq (exact_rep n r k) q) z = ms (exact_rep n r (Seq k q)) z"
proof (induction n arbitrary: z)
  case 0
  then show ?case by simp
next
  case (Suc n)
  have "ms (Seq (exact_rep (Suc n) r k) q) z =
          concat (map (ms (Seq (exact_rep n r k) q)) (ms r z))"
    by (simp add: map_concat comp_def concat_concat_map ms_Seq_fun)
  also have "\<dots> = concat (map (ms (exact_rep n r (Seq k q))) (ms r z))"
    using Suc by (simp cong: map_cong)
  finally show ?case by simp
qed

section \<open>The Aadhar validator\<close>

lemma re_match_aadhar:
  "re_match aadhar_re c \<longleftrightarrow>
     12 \<le> length c \<and> list_all is_digit (take 12 c)
     \<and> (drop 12 c = [] \<or> drop 12 c = [CHR 0x0A])"
  by (simp add: re_match_def aadhar_re_def Rep_def ms_Seq_exact_rep ms_exact_rep_Cls)

lemma digit_not_sep: "is_digit c \<Longrightarrow> c \<noteq> CHR ''-'' \<and> \<not> is_space c"
  by (auto simp: is_digit_def digits_def is_space_def)

lemma aadhar_accepts:
  "re_match aadhar_re (filter (\<lambda>c. c \<noteq> CHR ''-'' \<and> \<not> is_space c) s) \<longleftrightarrow>
     length (filter (\<lambda>c. c \<noteq> CHR ''-'' \<and> \<not> is_space c) s) = 12
     \<and> list_all is_digit (filter (\<lambda>c. c \<noteq> CHR ''-'' \<and> \<not> is_space c) s)"
proof -
  define c where "c = filter (\<lambda>c. c \<noteq> CHR ''-'' \<and> \<not> is_space c) s"
  have nl: "CHR 0x0A \<notin> set c"
    by (auto simp: c_def is_space_def)
  have "drop 12 c \<noteq> [CHR 0x0A]"
  proof
    assume "drop 12 c = [CHR 0x0A]"
    then have "CHR 0x0A \<in> set (drop 12 c)" by simp
    then show False using nl by (meson in_set_dropD)
  qed
  then have "re_match aadhar_re c \<longleftrightarrow> length c = 12 \<and> list_all is_digit c"
    by (auto simp: re_match_aadhar)
  then show ?thesis by (simp add: c_def)
qed

text \<open>
  C9, as stated, fails in one word: the verdict of a rejected input is the string
  \<open>wrong\<close>, not \<open>incorrect\<close>. The thirteen digits \<open>1234567890123\<close> are rejected with
  the message \<open>Invalid Aadhar number\<close> and the verdict \<open>wrong\<close>.
\<close>

theorem aadhar_verdict_counterexample:
  "validate_and_format_aadhar (PyStr ''1234567890123'') =
     Inr (None, Some ''Invalid Aadhar number'', ''wrong'')
   \<and> validate_and_format_aadhar (PyStr ''1234567890123'') \<noteq>
     Inr (None, Some ''Invalid Aadhar number'', ''incorrect'')"
  by code_simp

text \<open>
  C9, amended: the Aadhar validator removes hyphens and whitespace, accepts a string
  exactly when what remains is twelve digits, and then returns the digits as
  \<open>XXXX-XXXX-XXXX\<close> with the verdict \<open>correct\<close>; every other string is rejected with the
  verdict \<open>wrong\<close>. \<open>1234 5678 9012\<close> and \<open>1234-5678-9012\<close> both give \<open>1234-5678-9012\<close>,
  and every string of thirteen digits is rejected.
\<close>

theorem aadhar_validator:
  "validate_and_format_aadhar (PyStr s) =
     (let cleaned = filter (\<lambda>c. c \<noteq> CHR ''-'' \<and> \<not> is_space c) s
      in if length cleaned = 12 \<and> list_all is_digit cleaned
         then Inr (Some (take 4 cleaned @ ''-'' @ take 4 (drop 4 cleaned) @ ''-'' @ drop 8 cleaned),
                   None, ''correct'')
         else Inr (None, Some ''Invalid Aadhar number'', ''wrong''))
   \<and> validate_and_format_aadhar (PyStr ''1234 5678 9012'') =
       Inr (Some ''1234-5678-9012'', None, ''correct'')
   \<and> validate_and_format_aadhar (PyStr ''1234-5678-9012'') =
       Inr (Some ''1234-5678-9012'', None, ''correct'')
   \<and> (length s = 13 \<and> list_all is_digit s \<longrightarrow>
        validate_and_format_aadhar (PyStr s) = Inr (None, Some ''Invalid Aadhar number'', ''wrong''))"
proof -
  have main: "validate_and_format_aadhar (PyStr s) =
     (let cleaned = filter (\<lambda>c. c \<noteq> CHR ''-'' \<and> \<not> is_space c) s
      in if length cleaned = 12 \<and> list_all is_digit cleaned
         then Inr (Some (take 4 cleaned @ ''-'' @ take 4 (drop 4 cleaned) @ ''-'' @ drop 8 cleaned),
                   None, ''correct'')
         else Inr (None, Some ''Invalid Aadhar number'', ''wrong''))" for s
    by (simp add: validate_and_format_aadhar_def aadhar_accepts correct_def wrong_def Let_def)
  have e1: "validate_and_format_aadhar (PyStr ''1234 5678 9012'') =
              Inr (Some ''1234-5678-9012'', None, ''correct'')"
    by code_simp
  have e2: "validate_and_format_aadhar (PyStr ''1234-5678-9012'') =
              Inr (Some ''1234-5678-9012'', None, ''correct'')"
    by code_simp
  have e3: "validate_and_format_aadhar (PyStr s) = Inr (None, Some ''Invalid Aadhar number'', ''wrong'')"
    if "length s = 13" "list_all is_digit s"
  proof -
    have "filter (\<lambda>c. c \<noteq> CHR ''-'' \<and> \<not> is_space c) s = s"
      using that(2) digit_not_sep by (simp add: list_all_iff)
    then show ?thesis using that(1) by (simp add: main)
  qed
  show ?thesis using main e1 e2 e3 by blast
qed

theorem aadhar_validator_witness:
  "length ''1234567890123'' = 13 \<and> list_all is_digit ''1234567890123''
   \<and> validate_and_format_aadhar (PyStr ''1234567890123'') =
       Inr (None, Some ''Invalid Aadhar number'', ''wrong'')
   \<and> validate_and_format_aadhar (PyStr ''1234 5678 9012'') =
       Inr (Some ''1234-5678-9012'', None, ''correct'')"
proof -
  have l: "length ''1234567890123'' = 13"
    by simp
  have d: "list_all is_digit ''1234567890123''"
    by code_simp
  from aadhar_validator [of "''1234567890123''"]
  have r: "length ''1234567890123'' = 13 \<and> list_all is_digit ''1234567890123'' \<longrightarrow>
        validate_and_format_aadhar (PyStr ''1234567890123'') =
          Inr (None, Some ''Invalid Aadhar number'', ''wrong'')"
    and e: "validate_and_format_aadhar (PyStr ''1234 5678 9012'') =
          Inr (Some ''1234-5678-9012'', None, ''correct'')"
    by blast+
  from l d r e show ?thesis
    by blast
qed

section \<open>Validators on values that are not strings\<close>

text \<open>
  C3 (the code departs from the claim). The claim: every validator, given an empty
  string or a value that is not a string, returns (\<open>None\<close>, a message, \<open>incorrect\<close>) and
  never raises. What the code does: the validators of the name, the date, the phone
  number and the e-mail address test \<open>not value or not isinstance(value, str)\<close> first; the
  other eight do not, and on \<open>None\<close> (or an integer) they raise. On the empty string
  they reject, with the verdict \<open>wrong\<close>.
\<close>

theorem unguarded_validators_raise:
  "validate_and_format_aadhar PyNone = Inl TypeError
   \<and> validate_and_format_pan PyNone = Inl AttributeError
   \<and> validate_and_format_passport PyNone = Inl AttributeError
   \<and> validate_and_format_voter_id PyNone = Inl AttributeError
   \<and> validate_and_format_driving_license PyNone = Inl AttributeError
   \<and> validate_and_format_bank_account PyNone = Inl TypeError
   \<and> validate_and_format_credit_card PyNone = Inl TypeError
   \<and> validate_and_format_ip PyNone = Inl TypeError
   \<and> validate_and_format_pan (PyInt 5) = Inl AttributeError
   \<and> validate_and_format_phone L PyNone = Inr (None, Some ''Invalid phone number format'', ''wrong'')
   \<and> validate_and_format_aadhar (PyStr []) = Inr (None, Some ''Invalid Aadhar number'', ''wrong'')"
  by (simp add: validate_and_format_aadhar_def validate_and_format_pan_def
        validate_and_format_passport_def validate_and_format_voter_id_def
        validate_and_format_driving_license_def validate_and_format_bank_account_def
        validate_and_format_credit_card_def validate_and_format_ip_def
        validate_and_format_phone_def wrong_def re_match_aadhar)

section \<open>The phone validator\<close>

text \<open>
  C6 (the code departs from the claim). The claim: the phone validator rejects only when
  the validity check fails for the number with its country code and for the bare
  national number. What the code does: after \<open>+91\<close> has been put in front, \<open>cleaned\<close>
  always starts with \<open>+\<close>, so the second attempt, under \<open>not cleaned.startswith('+')\<close>, is
  never made: whenever the number parsed from \<open>cleaned\<close> is not valid the verdict is
  \<open>wrong\<close>, whatever the parse with the region \<open>IN\<close> would give.
\<close>

theorem phone_region_attempt_unreachable:
  assumes "s \<noteq> []"
    and "parse L (if startswith (phone_chars s) ''+'' then phone_chars s
                  else ''+91'' @ phone_chars s) None = Inr n"
    and "\<not> is_valid_number L n"
  shows "validate_and_format_phone L (PyStr s) = Inr (None, Some ''Invalid phone number'', ''wrong'')"
proof (cases "startswith (phone_chars s) ''+''")
  case True
  then show ?thesis
    using assms by (simp add: validate_and_format_phone_def Let_def wrong_def)
next
  case False
  have "startswith (''+91'' @ phone_chars s) ''+''"
    by (simp add: startswith_def)
  then show ?thesis
    using assms False by (simp add: validate_and_format_phone_def Let_def wrong_def)
qed

theorem phone_region_attempt_witness:
  "''919876543210'' \<noteq> []
   \<and> parse sample_libs ''+91919876543210'' None = Inr ''91919876543210''
   \<and> \<not> is_valid_number sample_libs ''91919876543210''
   \<and> parse sample_libs ''919876543210'' (Some ''IN'') = Inr ''919876543210''
   \<and> is_valid_number sample_libs ''919876543210''
   \<and> validate_and_format_phone sample_libs (PyStr ''919876543210'') =
       Inr (None, Some ''Invalid phone number'', ''wrong'')"
proof -
  have p: "parse sample_libs (if startswith (phone_chars ''919876543210'') ''+''
             then phone_chars ''919876543210'' else ''+91'' @ phone_chars ''919876543210'') None
           = Inr ''91919876543210''"
    by code_simp
  have v: "\<not> is_valid_number sample_libs ''91919876543210''"
    by code_simp
  have r: "parse sample_libs ''919876543210'' (Some ''IN'') = Inr ''919876543210''"
    by code_simp
  have w: "is_valid_number sample_libs ''919876543210''"
    by code_simp
  have p': "parse sample_libs ''+91919876543210'' None = Inr ''91919876543210''"
    by code_simp
  show ?thesis
    using phone_region_attempt_unreachable [OF _ p v] r w p' v by simp
qed

end
